theory Spec2Isabelle
  imports Main
begin

section \<open>Values shared by database.py and app.py\<close>

text \<open>
  A Python exception is a value: the class and the text \<open>str(e)\<close> gives. A function
  of the source that can raise returns \<open>exn + 'a\<close>, with \<open>Inl\<close> for the raise.
\<close>

datatype exn =
    InvalidId string
  | DuplicateKeyError string
  | PyMongoError string
  | AttributeError string
  | TypeError string
  | ValueError string
  | RuntimeError string


definition raising :: "exn + 'a \<Rightarrow> ('a \<Rightarrow> exn + 'b) \<Rightarrow> exn + 'b" where
  "raising m k = (case m of Inl e \<Rightarrow> Inl e | Inr v \<Rightarrow> k v)"

text \<open>
  A \<open>datetime\<close> is a count of microseconds; an \<open>ObjectId\<close> is the text \<open>str\<close> gives
  for it. A Python \<open>str\<close> is the \<open>string\<close> of its UTF-8 bytes: equality, emptiness,
  concatenation and \<open>in\<close> are those of the bytes. What reads code points
  (\<open>str.strip\<close>, \<open>str.lower\<close>, \<open>len\<close>) is Python's own and is taken from outside, with
  the other library functions (\<open>lib\<close> below).
\<close>

type_synonym datetime = int
type_synonym oid = string



subsection \<open>Request bodies\<close>

text \<open>
  What \<open>request.get_json\<close> yields: a JSON value (numbers are integers here), with
  Python's truth value and Python's \<open>dict.get\<close>, which only a dict has.
\<close>

datatype json =
    JNull
  | JBool bool
  | JNum int
  | JStr string
  | JArr "json list"
  | JObj "(string \<times> json) list"

fun truthy :: "json \<Rightarrow> bool" where
  "truthy JNull = False"
| "truthy (JBool b) = b"
| "truthy (JNum n) = (n \<noteq> 0)"
| "truthy (JStr s) = (s \<noteq> [])"
| "truthy (JArr xs) = (xs \<noteq> [])"
| "truthy (JObj kvs) = (kvs \<noteq> [])"

fun py_get :: "json \<Rightarrow> string \<Rightarrow> json \<Rightarrow> exn + json" where
  "py_get (JObj kvs) k dflt = Inr (case map_of kvs k of None \<Rightarrow> dflt | Some v \<Rightarrow> v)"
| "py_get j k dflt = Inl (AttributeError ''object has no attribute 'get' '')"

fun hashable :: "json \<Rightarrow> bool" where
  "hashable (JArr xs) = False"
| "hashable (JObj kvs) = False"
| "hashable j = True"

text \<open>\<open>request.get_json(force=True, silent=True) or {}\<close>: \<open>None\<close> is a body that is not JSON.\<close>

definition body_or_empty :: "json option \<Rightarrow> json" where
  "body_or_empty b = (case b of None \<Rightarrow> JObj [] | Some j \<Rightarrow> if truthy j then j else JObj [])"

section \<open>database.py\<close>

subsection \<open>Documents and collections\<close>

record user_doc =
  u_name :: string
  u_email :: string
  u_password :: string
  u_created_at :: datetime

type_synonym analysis = "(string \<times> string) list"

record opt_doc =
  user_id :: string
  name :: string
  original_code :: string
  optimized_code :: string
  level :: string
  changes :: "string list"
  original_analysis :: analysis
  optimized_analysis :: analysis
  error :: "string option"
  starred :: bool
  created_at :: datetime

text \<open>
  A collection is the list of its documents in insertion order, each under its \<open>_id\<close>.
  The state of the program is the two collections and what \<open>traceback.print_exc\<close> has
  written.
\<close>

type_synonym 'd collection = "(oid \<times> 'd) list"

record world =
  users :: "user_doc collection"
  optimizations :: "opt_doc collection"
  printed :: "exn list"

text \<open>
  What a request takes from outside the program: the clock, the \<open>_id\<close> the driver
  generates for an inserted document, and a failure of the backend (raised by the
  insert, the call app.py guards with \<open>try\<close>).
\<close>

record env =
  utcnow :: datetime
  inserted_id :: oid
  backend_error :: "exn option"

text \<open>
  The library functions the source calls and does not define: Python's \<open>str.strip\<close>,
  \<open>str.lower\<close> and \<open>len\<close> on a \<open>str\<close>, \<open>bson.ObjectId\<close> on a string,
  \<open>datetime.isoformat\<close>, \<open>strftime('%d %b %Y, %H:%M')\<close>, \<open>bcrypt.hashpw\<close> with a generated
  salt, \<open>bcrypt.checkpw\<close> (either may raise), \<open>jwt.encode\<close> under the secret, and the
  pipeline of \<open>core.pipeline\<close>.
\<close>

record token_payload =
  sub :: string
  tp_name :: string
  tp_email :: string
  iat :: datetime
  exp :: datetime

record l2_result =
  changes_applied :: "string list option"

record pipeline_result =
  passed_error_check :: "bool option"
  l1_changes :: "string list option"
  l2 :: "l2_result option"
  r_original_code :: "string option"
  r_optimized_code :: "string option"
  r_original_analysis :: "analysis option"
  r_optimized_analysis :: "analysis option"
  r_error :: "string option"

record lib =
  str_strip :: "string \<Rightarrow> string"
  str_lower :: "string \<Rightarrow> string"
  str_len :: "string \<Rightarrow> nat"
  ObjectId :: "string \<Rightarrow> exn + oid"
  isoformat :: "datetime \<Rightarrow> string"
  strftime :: "datetime \<Rightarrow> string"
  hashpw :: "string \<Rightarrow> exn + string"
  checkpw :: "string \<Rightarrow> string \<Rightarrow> exn + bool"
  jwt_encode :: "token_payload \<Rightarrow> string"
  run_pipeline :: "string \<Rightarrow> string \<Rightarrow> exn + pipeline_result"

text \<open>\<open>(body.get(k, "") or "").strip()\<close>\<close>

definition stripped_field :: "lib \<Rightarrow> json \<Rightarrow> string \<Rightarrow> exn + string" where
  "stripped_field L body k =
     raising (py_get body k (JStr [])) (\<lambda>v.
       case (if truthy v then v else JStr []) of
         JStr s \<Rightarrow> Inr (str_strip L s)
       | _ \<Rightarrow> Inl (AttributeError ''object has no attribute 'strip' ''))"

subsection \<open>The MongoDB operations the source uses\<close>

text \<open>
  \<open>find_one\<close> gives the first document the filter matches; \<open>delete_one\<close> removes it and
  counts it; \<open>update_one\<close> rewrites it and counts it as matched, and as modified only
  when the rewrite changed it. \<open>insert_one\<close> refuses a document whose \<open>_id\<close>, or whose
  key under a unique index (\<open>dup\<close>), is already there; what it stores is the BSON
  encoding of the document (\<open>encode\<close>), in which a datetime keeps milliseconds only.
\<close>

definition find_one :: "('a \<Rightarrow> bool) \<Rightarrow> 'a list \<Rightarrow> 'a option" where
  "find_one flt coll = List.find flt coll"

fun delete_one :: "('a \<Rightarrow> bool) \<Rightarrow> 'a list \<Rightarrow> nat \<times> 'a list" where
  "delete_one flt [] = (0, [])"
| "delete_one flt (x # xs) =
     (if flt x then (1, xs) else (fst (delete_one flt xs), x # snd (delete_one flt xs)))"

fun update_one :: "('a \<Rightarrow> bool) \<Rightarrow> ('a \<Rightarrow> 'a) \<Rightarrow> 'a list \<Rightarrow> (nat \<times> nat) \<times> 'a list" where
  "update_one flt upd [] = ((0, 0), [])"
| "update_one flt upd (x # xs) =
     (if flt x then ((1, if upd x = x then 0 else 1), upd x # xs)
      else (fst (update_one flt upd xs), x # snd (update_one flt upd xs)))"

definition E11000 :: string where
  "E11000 = ''E11000 duplicate key error collection''"

definition bson_datetime :: "datetime \<Rightarrow> datetime" where
  "bson_datetime t = (t div 1000) * 1000"

definition insert_one ::
  "env \<Rightarrow> ('d \<Rightarrow> bool) \<Rightarrow> ('d \<Rightarrow> 'd) \<Rightarrow> 'd \<Rightarrow> 'd collection \<Rightarrow> exn + (oid \<times> 'd collection)" where
  "insert_one E dup encode doc coll =
     (case backend_error E of
        Some e \<Rightarrow> Inl e
      | None \<Rightarrow>
          if list_ex (\<lambda>(j, d). j = inserted_id E \<or> dup d) coll
          then Inl (DuplicateKeyError E11000)
          else Inr (inserted_id E, coll @ [(inserted_id E, encode doc)]))"

subsection \<open>Helpers\<close>

record user_json =
  uj_id :: string
  uj_name :: string
  uj_email :: string
  uj_created_at :: "string option"


record opt_json =
  oj_id :: string
  oj_user_id :: string
  oj_name :: string
  oj_original_code :: string
  oj_optimized_code :: string
  oj_level :: string
  oj_changes :: "string list"
  oj_original_analysis :: analysis
  oj_optimized_analysis :: analysis
  oj_error :: "string option"
  oj_starred :: bool
  oj_created_at :: "string option"

definition serialize_optimization :: "lib \<Rightarrow> oid \<Rightarrow> opt_doc \<Rightarrow> opt_json" where
  "serialize_optimization L i doc =
     \<lparr> oj_id = i, oj_user_id = user_id doc, oj_name = name doc,
       oj_original_code = original_code doc, oj_optimized_code = optimized_code doc,
       oj_level = level doc, oj_changes = changes doc,
       oj_original_analysis = original_analysis doc,
       oj_optimized_analysis = optimized_analysis doc,
       oj_error = error doc, oj_starred = starred doc,
       oj_created_at = Some (isoformat L (created_at doc)) \<rparr>"

subsection \<open>User operations\<close>


definition find_user_by_email :: "lib \<Rightarrow> string \<Rightarrow> world \<Rightarrow> (oid \<times> user_doc) option" where
  "find_user_by_email L email w =
     find_one (\<lambda>(j, d). u_email d = str_strip L (str_lower L email)) (users w)"

subsection \<open>Optimization history operations\<close>

definition session_prefix :: string where
  "session_prefix = ''Session '' @ [CHR 0xC2, CHR 0xB7] @ '' ''"

definition save_optimization ::
  "lib \<Rightarrow> env \<Rightarrow> string \<Rightarrow> string \<Rightarrow> string \<Rightarrow> string \<Rightarrow> string list \<Rightarrow> analysis \<Rightarrow> analysis
     \<Rightarrow> string option \<Rightarrow> world \<Rightarrow> exn + (opt_json \<times> world)" where
  "save_optimization L E uid orig opt lvl chgs orig_an opt_an err w =
     (let doc = \<lparr> user_id = uid, name = session_prefix @ strftime L (utcnow E),
                  original_code = orig, optimized_code = opt, level = lvl,
                  changes = chgs, original_analysis = orig_an,
                  optimized_analysis = opt_an, error = err, starred = False,
                  created_at = utcnow E \<rparr>
      in raising (insert_one E (\<lambda>d. False)
                    (\<lambda>d. d\<lparr>created_at := bson_datetime (created_at d)\<rparr>) doc (optimizations w))
           (\<lambda>(i, coll). Inr (serialize_optimization L i doc, w\<lparr>optimizations := coll\<rparr>)))"

definition delete_optimization :: "lib \<Rightarrow> string \<Rightarrow> string \<Rightarrow> world \<Rightarrow> exn + (bool \<times> world)" where
  "delete_optimization L optimization_id uid w =
     raising (ObjectId L optimization_id) (\<lambda>i.
       let (deleted_count, coll) =
             delete_one (\<lambda>(j, d). j = i \<and> user_id d = uid) (optimizations w)
       in Inr (deleted_count > 0, w\<lparr>optimizations := coll\<rparr>))"

definition rename_optimization :: "lib \<Rightarrow> string \<Rightarrow> string \<Rightarrow> string \<Rightarrow> world \<Rightarrow> exn + (bool \<times> world)" where
  "rename_optimization L optimization_id uid new_name w =
     raising (ObjectId L optimization_id) (\<lambda>i.
       let ((matched_count, modified_count), coll) =
             update_one (\<lambda>(j, d). j = i \<and> user_id d = uid)
               (\<lambda>(j, d). (j, d\<lparr>name := new_name\<rparr>)) (optimizations w)
       in Inr (modified_count > 0, w\<lparr>optimizations := coll\<rparr>))"

definition toggle_star :: "lib \<Rightarrow> string \<Rightarrow> string \<Rightarrow> world \<Rightarrow> exn + (bool option \<times> world)" where
  "toggle_star L optimization_id uid w =
     raising (ObjectId L optimization_id) (\<lambda>i.
       case find_one (\<lambda>(j, d). j = i \<and> user_id d = uid) (optimizations w) of
         None \<Rightarrow> Inr (None, w)
       | Some (k, doc) \<Rightarrow>
           let new_val = \<not> starred doc;
               (counts, coll) =
                 update_one (\<lambda>(j, d). j = i)
                   (\<lambda>(j, d). (j, d\<lparr>starred := new_val\<rparr>)) (optimizations w)
           in Inr (Some new_val, w\<lparr>optimizations := coll\<rparr>))"

text \<open>
  \<open>toggle_star\<close> makes two calls on the collection, each a request to the server of
  its own: the \<open>find_one\<close>, from whose answer \<open>new_val\<close> is computed in Python, and the
  \<open>update_one\<close> that sets it. \<open>toggle_read\<close> and \<open>toggle_write\<close> are these two halves.
\<close>

definition toggle_read :: "lib \<Rightarrow> string \<Rightarrow> string \<Rightarrow> world \<Rightarrow> exn + bool option" where
  "toggle_read L optimization_id uid w =
     raising (ObjectId L optimization_id) (\<lambda>i.
       case find_one (\<lambda>(j, d). j = i \<and> user_id d = uid) (optimizations w) of
         None \<Rightarrow> Inr None
       | Some (k, doc) \<Rightarrow> Inr (Some (\<not> starred doc)))"

definition toggle_write :: "lib \<Rightarrow> string \<Rightarrow> bool \<Rightarrow> world \<Rightarrow> exn + world" where
  "toggle_write L optimization_id new_val w =
     raising (ObjectId L optimization_id) (\<lambda>i.
       let (counts, coll) =
             update_one (\<lambda>(j, d). j = i)
               (\<lambda>(j, d). (j, d\<lparr>starred := new_val\<rparr>)) (optimizations w)
       in Inr (w\<lparr>optimizations := coll\<rparr>))"

text \<open>
  The aggregation pipeline of \<open>get_user_stats\<close>: \<open>$match\<close> keeps the user's documents,
  \<open>$group\<close> with \<open>_id: None\<close> gives one row for them, and no row when there are none.
\<close>

record group_row =
  g_total :: nat
  g_level1_count :: nat
  g_level2_count :: nat
  g_starred_count :: nat
  g_last_active :: datetime

definition sum_cond :: "('a \<Rightarrow> bool) \<Rightarrow> 'a list \<Rightarrow> nat" where
  "sum_cond c xs = sum_list (map (\<lambda>x. if c x then 1 else 0) xs)"

definition aggregate_stats :: "string \<Rightarrow> opt_doc collection \<Rightarrow> group_row list" where
  "aggregate_stats uid coll =
     (case filter (\<lambda>(j, d). user_id d = uid) coll of
        [] \<Rightarrow> []
      | m # ms \<Rightarrow>
          [\<lparr> g_total = sum_list (map (\<lambda>x. 1) (m # ms)),
             g_level1_count = sum_cond (\<lambda>(j, d). level d = ''level1'') (m # ms),
             g_level2_count = sum_cond (\<lambda>(j, d). level d = ''level2'') (m # ms),
             g_starred_count = sum_cond (\<lambda>(j, d). starred d) (m # ms),
             g_last_active = fold max (map (\<lambda>(j, d). created_at d) ms) (created_at (snd m)) \<rparr>])"

record stats =
  total :: nat
  level1_count :: nat
  level2_count :: nat
  starred_count :: nat
  last_active :: "string option"

definition get_user_stats :: "lib \<Rightarrow> string \<Rightarrow> world \<Rightarrow> stats" where
  "get_user_stats L uid w =
     (case aggregate_stats uid (optimizations w) of
        [] \<Rightarrow> \<lparr> total = 0, level1_count = 0, level2_count = 0,
                starred_count = 0, last_active = None \<rparr>
      | row # rest \<Rightarrow>
          \<lparr> total = g_total row, level1_count = g_level1_count row,
            level2_count = g_level2_count row, starred_count = g_starred_count row,
            last_active = Some (isoformat L (g_last_active row)) \<rparr>)"

section \<open>app.py\<close>

text \<open>
  A route handler runs behind \<open>require_auth\<close> where the source says so: it takes the
  \<open>g.user_id\<close> the token gave. It returns the JSON body with the HTTP status and the
  new state, or \<open>Inl\<close> for an exception nothing catches (every such raise precedes the
  handler's first write, so the state is the one it started from).
\<close>

datatype body =
    ErrorBody string
  | RegisterBody string user_json
  | LoginBody string string string string
  | AnalyseBody pipeline_result "string option"
  | DeletedBody bool
  | RenamedBody bool
  | StarredBody bool
  | StatsBody stats

type_synonym response = "body \<times> nat"

definition JWT_EXPIRES :: int where
  "JWT_EXPIRES = 7 * 24 * 3600 * 1000000"

definition VALID_LEVELS :: "string list" where
  "VALID_LEVELS = [''none'', ''level1'', ''level2'']"

definition LEVEL_ALIASES :: "(string \<times> string) list" where
  "LEVEL_ALIASES =
     [(''LEVEL_1'', ''level1''), (''LEVEL_2'', ''level2''),
      (''level_1'', ''level1''), (''level_2'', ''level2'')]"

definition app_error :: "string \<Rightarrow> nat \<Rightarrow> response" where
  "app_error message status = (ErrorBody message, status)"

definition make_token :: "lib \<Rightarrow> env \<Rightarrow> string \<Rightarrow> string \<Rightarrow> string \<Rightarrow> string" where
  "make_token L E uid nm email =
     jwt_encode L \<lparr> sub = uid, tp_name = nm, tp_email = email,
                    iat = utcnow E, exp = utcnow E + JWT_EXPIRES \<rparr>"

definition print_exc :: "exn \<Rightarrow> world \<Rightarrow> world" where
  "print_exc e w = w\<lparr>printed := printed w @ [e]\<rparr>"

subsection \<open>Auth routes\<close>


definition login :: "lib \<Rightarrow> env \<Rightarrow> json option \<Rightarrow> world \<Rightarrow> exn + (response \<times> world)" where
  "login L E request_json w =
     (let body = body_or_empty request_json in
      raising (stripped_field L body ''email'') (\<lambda>stripped_email.
      raising (stripped_field L body ''password'') (\<lambda>password.
        let email = str_lower L stripped_email in
        if email = [] \<or> password = []
        then Inr (app_error ''email and password are required'' 400, w)
        else
          case find_user_by_email L email w of
            None \<Rightarrow> Inr (app_error ''Invalid email or password'' 401, w)
          | Some (i, doc) \<Rightarrow>
              raising (checkpw L password (u_password doc)) (\<lambda>ok.
                if \<not> ok
                then Inr (app_error ''Invalid email or password'' 401, w)
                else
                  Inr ((LoginBody (make_token L E i (u_name doc) (u_email doc))
                          i (u_name doc) (u_email doc), 200), w)))))"

subsection \<open>Analyse\<close>

text \<open>
  \<open>_LEVEL_ALIASES.get(v, v)\<close> and \<open>v not in VALID_LEVELS\<close> hash \<open>v\<close>: a list or a dict
  raises \<open>TypeError\<close>. \<open>valid_level\<close> gives the level when it is in \<open>VALID_LEVELS\<close>.
\<close>

definition alias_get :: "json \<Rightarrow> exn + json" where
  "alias_get v =
     (if \<not> hashable v then Inl (TypeError ''unhashable type'')
      else Inr (case v of
                  JStr s \<Rightarrow> (case map_of LEVEL_ALIASES s of None \<Rightarrow> v | Some a \<Rightarrow> JStr a)
                | _ \<Rightarrow> v))"

definition valid_level :: "json \<Rightarrow> exn + string option" where
  "valid_level v =
     (if \<not> hashable v then Inl (TypeError ''unhashable type'')
      else Inr (case v of
                  JStr s \<Rightarrow> if s \<in> set VALID_LEVELS then Some s else None
                | _ \<Rightarrow> None))"

definition non_empty_code :: "lib \<Rightarrow> json \<Rightarrow> string option" where
  "non_empty_code L v =
     (case v of JStr c \<Rightarrow> if str_strip L c = [] then None else Some c | _ \<Rightarrow> None)"

definition level_changes :: "string \<Rightarrow> pipeline_result \<Rightarrow> string list" where
  "level_changes optimization_level result =
     (if optimization_level = ''level1''
      then (case l1_changes result of None \<Rightarrow> [] | Some cs \<Rightarrow> cs)
      else if optimization_level = ''level2''
      then (case l2 result of
              None \<Rightarrow> []
            | Some r \<Rightarrow> (case changes_applied r of None \<Rightarrow> [] | Some cs \<Rightarrow> cs))
      else [])"

definition or_default :: "'a \<Rightarrow> 'a option \<Rightarrow> 'a" where
  "or_default d v = (case v of None \<Rightarrow> d | Some x \<Rightarrow> x)"

definition internal_error_message :: string where
  "internal_error_message =
     ''Internal server error '' @ [CHR 0xE2, CHR 0x80, CHR 0x94] @ '' check server logs for details.''"

definition auto_save ::
  "lib \<Rightarrow> env \<Rightarrow> string \<Rightarrow> string \<Rightarrow> pipeline_result \<Rightarrow> world \<Rightarrow> string option \<times> world" where
  "auto_save L E uid optimization_level result w =
     (if passed_error_check result = Some True
      then
        (case save_optimization L E uid
                (or_default [] (r_original_code result))
                (or_default [] (r_optimized_code result))
                optimization_level
                (level_changes optimization_level result)
                (or_default [] (r_original_analysis result))
                (or_default [] (r_optimized_analysis result))
                (r_error result) w of
           Inl e \<Rightarrow> (None, print_exc e w)
         | Inr (saved, w') \<Rightarrow> (Some (oj_id saved), w'))
      else (None, w))"

definition analyse :: "lib \<Rightarrow> env \<Rightarrow> string \<Rightarrow> json option \<Rightarrow> world \<Rightarrow> exn + (response \<times> world)" where
  "analyse L E uid request_json w =
     (case request_json of
        None \<Rightarrow> Inr (app_error ''Request body must be valid JSON'' 400, w)
      | Some body \<Rightarrow>
          raising (py_get body ''code'' (JStr [])) (\<lambda>code_value.
            case non_empty_code L code_value of
              None \<Rightarrow>
                Inr (app_error '''code' field is required and must be a non-empty string'' 400, w)
            | Some code \<Rightarrow>
                raising (py_get body ''optimization_level'' (JStr ''none'')) (\<lambda>submitted.
                raising (alias_get submitted) (\<lambda>aliased.
                raising (valid_level aliased) (\<lambda>checked.
                  case checked of
                    None \<Rightarrow>
                      Inr (app_error
                             '''optimization_level' must be one of: ['level1', 'level2', 'none']''
                             400, w)
                  | Some optimization_level \<Rightarrow>
                      (case run_pipeline L code optimization_level of
                         Inl e \<Rightarrow> Inr (app_error internal_error_message 500, print_exc e w)
                       | Inr result \<Rightarrow>
                           (let (session_id, w') = auto_save L E uid optimization_level result w
                            in Inr ((AnalyseBody result session_id, 200), w'))))))))"

subsection \<open>History routes and profile\<close>

definition not_found :: response where
  "not_found = app_error ''Session not found or not yours'' 404"

definition delete_session :: "lib \<Rightarrow> string \<Rightarrow> string \<Rightarrow> world \<Rightarrow> exn + (response \<times> world)" where
  "delete_session L uid session_id w =
     raising (delete_optimization L session_id uid w) (\<lambda>(success, w').
       if \<not> success then Inr (not_found, w') else Inr ((DeletedBody True, 200), w'))"

definition rename_session ::
  "lib \<Rightarrow> string \<Rightarrow> string \<Rightarrow> json option \<Rightarrow> world \<Rightarrow> exn + (response \<times> world)" where
  "rename_session L uid session_id request_json w =
     (let body = body_or_empty request_json in
      raising (stripped_field L body ''name'') (\<lambda>new_name.
        if new_name = [] then Inr (app_error '''name' is required'' 400, w)
        else
          raising (rename_optimization L session_id uid new_name w) (\<lambda>(success, w').
            if \<not> success then Inr (not_found, w') else Inr ((RenamedBody True, 200), w'))))"

definition star_session :: "lib \<Rightarrow> string \<Rightarrow> string \<Rightarrow> world \<Rightarrow> exn + (response \<times> world)" where
  "star_session L uid session_id w =
     raising (toggle_star L session_id uid w) (\<lambda>(new_val, w').
       case new_val of
         None \<Rightarrow> Inr (not_found, w')
       | Some b \<Rightarrow> Inr ((StarredBody b, 200), w'))"

definition profile_stats :: "lib \<Rightarrow> string \<Rightarrow> world \<Rightarrow> response" where
  "profile_stats L uid w = (StatsBody (get_user_stats L uid w), 200)"

section \<open>Notions used in the statements\<close>

text \<open>
  \<open>put_doc i f\<close> rewrites the document under \<open>_id\<close> \<open>i\<close> and \<open>owned uid\<close> lists the
  sessions of a user; the properties below are stated with them.
\<close>

definition put_doc :: "oid \<Rightarrow> ('d \<Rightarrow> 'd) \<Rightarrow> 'd collection \<Rightarrow> 'd collection" where
  "put_doc i f coll = map (\<lambda>(j, e). if j = i then (j, f e) else (j, e)) coll"

definition owned :: "string \<Rightarrow> world \<Rightarrow> opt_doc list" where
  "owned uid w = map snd (filter (\<lambda>(j, d). user_id d = uid) (optimizations w))"

subsection \<open>Two star requests at once\<close>

text \<open>
  Two requests to star the same session are served at the same time (the server runs
  each request in a thread of its own). Each is at one of four points: before its
  \<open>find_one\<close>, between its \<open>find_one\<close> and its \<open>update_one\<close> (holding the \<open>new_val\<close> it
  computed), returned, or failed. A schedule says which request makes its next call.
\<close>

datatype request_state =
    Waiting
  | Read_done bool
  | Returned "bool option"
  | Failed exn

datatype request = Request_A | Request_B

definition toggle_step ::
  "lib \<Rightarrow> string \<Rightarrow> string \<Rightarrow> request_state \<Rightarrow> world \<Rightarrow> request_state \<times> world" where
  "toggle_step L optimization_id uid st w =
     (case st of
        Waiting \<Rightarrow>
          (case toggle_read L optimization_id uid w of
             Inl e \<Rightarrow> (Failed e, w)
           | Inr None \<Rightarrow> (Returned None, w)
           | Inr (Some new_val) \<Rightarrow> (Read_done new_val, w))
      | Read_done new_val \<Rightarrow>
          (case toggle_write L optimization_id new_val w of
             Inl e \<Rightarrow> (Failed e, w)
           | Inr w' \<Rightarrow> (Returned (Some new_val), w'))
      | Returned r \<Rightarrow> (Returned r, w)
      | Failed e \<Rightarrow> (Failed e, w))"

fun run_toggles ::
  "lib \<Rightarrow> string \<Rightarrow> string \<Rightarrow> request list
     \<Rightarrow> request_state \<times> request_state \<times> world \<Rightarrow> request_state \<times> request_state \<times> world" where
  "run_toggles L optimization_id uid [] c = c"
| "run_toggles L optimization_id uid (Request_A # sched) (a, b, w) =
     run_toggles L optimization_id uid sched
       (fst (toggle_step L optimization_id uid a w), b,
        snd (toggle_step L optimization_id uid a w))"
| "run_toggles L optimization_id uid (Request_B # sched) (a, b, w) =
     run_toggles L optimization_id uid sched
       (a, fst (toggle_step L optimization_id uid b w),
        snd (toggle_step L optimization_id uid b w))"

subsection \<open>A concrete installation\<close>

text \<open>
  Stand-ins for the libraries, good enough to run the handlers on ASCII text:
  \<open>strip\<close>, \<open>lower\<close> and \<open>len\<close> as Python has them on ASCII, an \<open>ObjectId\<close> that takes
  24 hexadecimal digits, a password hash that is checked by recomputing it, and a
  pipeline that passes its error check. \<open>bcrypt5_lib\<close> has a \<open>checkpw\<close> that refuses a
  password of more than 72 bytes, as bcrypt 5 does.
\<close>

definition ascii_space :: "char \<Rightarrow> bool" where
  "ascii_space c = (c \<in> set [CHR 0x09, CHR 0x0A, CHR 0x0B, CHR 0x0C, CHR 0x0D,
                               CHR 0x1C, CHR 0x1D, CHR 0x1E, CHR 0x1F, CHR 0x20])"

definition ascii_strip :: "string \<Rightarrow> string" where
  "ascii_strip s = rev (dropWhile ascii_space (rev (dropWhile ascii_space s)))"

definition ascii_lower_char :: "char \<Rightarrow> char" where
  "ascii_lower_char c =
     (case map_of (zip ''ABCDEFGHIJKLMNOPQRSTUVWXYZ'' ''abcdefghijklmnopqrstuvwxyz'') c of
        None \<Rightarrow> c
      | Some l \<Rightarrow> l)"

definition ascii_lower :: "string \<Rightarrow> string" where
  "ascii_lower s = map ascii_lower_char s"

definition is_hex :: "char \<Rightarrow> bool" where
  "is_hex c = (c \<in> set ''0123456789abcdefABCDEF'')"

definition sample_pipeline :: "string \<Rightarrow> string \<Rightarrow> exn + pipeline_result" where
  "sample_pipeline code lvl =
     Inr \<lparr> passed_error_check = Some True,
           l1_changes = Some [''constant folding''],
           l2 = Some \<lparr> changes_applied = Some [''loop unrolling''] \<rparr>,
           r_original_code = Some code, r_optimized_code = Some code,
           r_original_analysis = None, r_optimized_analysis = None,
           r_error = None \<rparr>"

definition sample_lib :: lib where
  "sample_lib =
     \<lparr> str_strip = ascii_strip, str_lower = ascii_lower, str_len = length,
       ObjectId = (\<lambda>s. if length s = 24 \<and> list_all is_hex s then Inr (ascii_lower s)
                           else Inl (InvalidId s)),
       isoformat = (\<lambda>t. replicate (nat (t div 1000)) CHR ''*''
                           @ (if t mod 1000 = 0 then [] else ''+'')),
       strftime = (\<lambda>t. replicate (nat (t div 1000)) CHR ''*''),
       hashpw = (\<lambda>p. Inr (''$2b$12$'' @ rev p)),
       checkpw = (\<lambda>p h. Inr (h = ''$2b$12$'' @ rev p)),
       jwt_encode = (\<lambda>t. sub t @ ''.'' @ tp_email t),
       run_pipeline = sample_pipeline \<rparr>"

definition too_long :: string where
  "too_long = ''0123456789012345678901234567890123456789012345678901234567890123456789012''"

definition bcrypt5_lib :: lib where
  "bcrypt5_lib =
     sample_lib\<lparr>checkpw := (\<lambda>p h.
       if 72 < length p
       then Inl (ValueError ''password cannot be longer than 72 bytes'')
       else Inr (h = ''$2b$12$'' @ rev p))\<rparr>"

definition sample_env :: env where
  "sample_env = \<lparr> utcnow = 9500, inserted_id = ''64b000000000000000000009'', backend_error = None \<rparr>"

definition failing_env :: env where
  "failing_env = sample_env\<lparr>backend_error := Some (PyMongoError ''connection refused'')\<rparr>"

definition sample_session :: "string \<Rightarrow> string \<Rightarrow> bool \<Rightarrow> datetime \<Rightarrow> opt_doc" where
  "sample_session uid lvl star t =
     \<lparr> user_id = uid, name = ''run'', original_code = ''x = 1 + 1'',
       optimized_code = ''x = 2'', level = lvl, changes = [],
       original_analysis = [], optimized_analysis = [], error = None,
       starred = star, created_at = t \<rparr>"

definition ada_doc :: user_doc where
  "ada_doc = \<lparr> u_name = ''Ada'', u_email = ''ada@x.com'',
               u_password = ''$2b$12$1terces'', u_created_at = 1000 \<rparr>"

definition sample_world :: world where
  "sample_world =
     \<lparr> users = [(''aaaaaaaaaaaaaaaaaaaaaaaa'', ada_doc)],
       optimizations =
         [(''64b000000000000000000001'', sample_session ''ada'' ''level1'' False 3000),
          (''64b000000000000000000002'', sample_session ''ada'' ''level1'' False 5000),
          (''64b000000000000000000003'', sample_session ''bob'' ''level2'' True 6000),
          (''64b000000000000000000004'', sample_session ''ada'' ''level2'' False 4000),
          (''64b000000000000000000005'', sample_session ''ada'' ''none'' True 2000)],
       printed = [] \<rparr>"






definition analyse_request :: "string \<Rightarrow> json option" where
  "analyse_request lvl =
     Some (JObj [(''code'', JStr ''x = 1 + 1''), (''optimization_level'', JStr lvl)])"

section \<open>Properties of the MongoDB operations\<close>

lemma find_one_no_match: "\<forall>x\<in>set coll. \<not> flt x \<Longrightarrow> find_one flt coll = None"
  by (simp add: find_one_def find_None_iff)

lemma delete_one_no_match: "\<forall>x\<in>set coll. \<not> flt x \<Longrightarrow> delete_one flt coll = (0, coll)"
  by (induction coll) auto

lemma update_one_no_match:
  "\<forall>x\<in>set coll. \<not> flt x \<Longrightarrow> update_one flt upd coll = ((0, 0), coll)"
  by (induction coll) auto

text \<open>
  MongoDB keeps \<open>_id\<close> unique in a collection. Under that invariant a filter on the
  \<open>_id\<close> of a session and on another user matches nothing.
\<close>

lemma other_owner_no_match:
  assumes "distinct (map fst coll)" and "(i, d) \<in> set coll" and "user_id d \<noteq> uid"
  shows "\<forall>x\<in>set coll. \<not> (case x of (j, e) \<Rightarrow> j = i \<and> user_id e = uid)"
proof
  fix x assume x: "x \<in> set coll"
  obtain j e where je: "x = (j, e)" by (cases x)
  show "\<not> (case x of (j, e) \<Rightarrow> j = i \<and> user_id e = uid)"
  proof
    assume "case x of (j, e) \<Rightarrow> j = i \<and> user_id e = uid"
    with je have "j = i" and "user_id e = uid" by auto
    with x je assms(1,2) have "e = d" by (auto dest: eq_key_imp_eq_value)
    with \<open>user_id e = uid\<close> assms(3) show False by simp
  qed
qed

lemma find_one_unique:
  "distinct (map fst coll) \<Longrightarrow> (i, d) \<in> set coll \<Longrightarrow> flt (i, d)
     \<Longrightarrow> \<forall>x\<in>set coll. flt x \<longrightarrow> fst x = i \<Longrightarrow> find_one flt coll = Some (i, d)"
  unfolding find_one_def
  by (induction coll) (auto dest: eq_key_imp_eq_value simp: rev_image_eqI)

lemma update_one_unique:
  "distinct (map fst coll) \<Longrightarrow> (i, d) \<in> set coll \<Longrightarrow> flt (i, d)
     \<Longrightarrow> \<forall>x\<in>set coll. flt x \<longrightarrow> fst x = i
     \<Longrightarrow> update_one flt (\<lambda>(j, e). (j, f e)) coll
           = ((1, if f d = d then 0 else 1), put_doc i f coll)"
  unfolding put_doc_def
proof (induction coll)
  case Nil
  then show ?case by simp
next
  case (Cons x xs)
  show ?case
  proof (cases "x = (i, d)")
    case True
    with Cons.prems have "\<forall>y\<in>set xs. fst y \<noteq> i" by (auto simp: rev_image_eqI)
    then have "map (\<lambda>(j, e). if j = i then (j, f e) else (j, e)) xs = xs"
      by (intro map_idI) auto
    with True Cons.prems show ?thesis by auto
  next
    case False
    with Cons.prems have in_xs: "(i, d) \<in> set xs" by auto
    with Cons.prems have "fst x \<noteq> i" by (auto simp: rev_image_eqI)
    with Cons.prems have nf: "\<not> flt x" by auto
    from Cons.IH[OF _ in_xs] Cons.prems
    have "update_one flt (\<lambda>(j, e). (j, f e)) xs
           = ((1, if f d = d then 0 else 1),
              map (\<lambda>(j, e). if j = i then (j, f e) else (j, e)) xs)"
      by auto
    with nf \<open>fst x \<noteq> i\<close> show ?thesis by (cases x) auto
  qed
qed

lemma put_doc_keys: "map fst (put_doc i f coll) = map fst coll"
  by (induction coll) (auto simp: put_doc_def)

lemma put_doc_mem: "(i, d) \<in> set coll \<Longrightarrow> (i, f d) \<in> set (put_doc i f coll)"
  by (force simp: put_doc_def)

lemma put_doc_undo:
  assumes "distinct (map fst coll)" and "(i, d) \<in> set coll" and "g (f d) = d"
  shows "put_doc i g (put_doc i f coll) = coll"
proof -
  have "\<And>x. x \<in> set coll \<Longrightarrow> fst x = i \<Longrightarrow> snd x = d"
    using assms(1,2) by (auto dest: eq_key_imp_eq_value)
  then show ?thesis
    unfolding put_doc_def map_map using assms(3)
    by (intro map_idI) (auto split: prod.splits)
qed

lemma put_doc_same:
  assumes "distinct (map fst coll)" and "(i, d) \<in> set coll" and "f d = d"
  shows "put_doc i f coll = coll"
proof -
  have "\<And>x. x \<in> set coll \<Longrightarrow> fst x = i \<Longrightarrow> snd x = d"
    using assms(1,2) by (auto dest: eq_key_imp_eq_value)
  then show ?thesis
    unfolding put_doc_def using assms(3)
    by (intro map_idI) (auto split: prod.splits)
qed

text \<open>
  The invariant itself: every operation of database.py on the sessions keeps the
  \<open>_id\<close>s pairwise distinct.
\<close>

lemma delete_one_subset: "set (snd (delete_one flt coll)) \<subseteq> set coll"
  by (induction coll) auto

lemma delete_one_keys:
  "distinct (map fst coll) \<Longrightarrow> distinct (map fst (snd (delete_one flt coll)))"
proof (induction coll)
  case Nil
  then show ?case by simp
next
  case (Cons x xs)
  have "fst x \<notin> fst ` set (snd (delete_one flt xs))"
    using Cons.prems delete_one_subset[of flt xs] by auto
  with Cons show ?case by auto
qed

lemma update_one_keys:
  "map fst (snd (update_one flt (\<lambda>(j, e). (j, f e)) coll)) = map fst coll"
  by (induction coll) (auto split: prod.splits)

lemma unique_ids_preserved:
  assumes "distinct (map fst (optimizations w))"
  shows "save_optimization L E uid a b c d f g h w = Inr (saved, w')
           \<Longrightarrow> distinct (map fst (optimizations w'))"
    and "delete_optimization L session_id uid w = Inr (r1, w')
           \<Longrightarrow> distinct (map fst (optimizations w'))"
    and "rename_optimization L session_id uid new_name w = Inr (r2, w')
           \<Longrightarrow> distinct (map fst (optimizations w'))"
    and "toggle_star L session_id uid w = Inr (r3, w')
           \<Longrightarrow> distinct (map fst (optimizations w'))"
proof -
  show "save_optimization L E uid a b c d f g h w = Inr (saved, w')
           \<Longrightarrow> distinct (map fst (optimizations w'))"
    using assms
    by (fastforce simp: save_optimization_def insert_one_def raising_def Let_def list_ex_iff
             split: option.splits if_splits)
  show "delete_optimization L session_id uid w = Inr (r1, w')
           \<Longrightarrow> distinct (map fst (optimizations w'))"
    using delete_one_keys[OF assms]
    by (auto simp: delete_optimization_def raising_def Let_def case_prod_unfold
             split: sum.splits)
  show "rename_optimization L session_id uid new_name w = Inr (r2, w')
           \<Longrightarrow> distinct (map fst (optimizations w'))"
    using assms update_one_keys[of _ "\<lambda>e. e\<lparr>name := new_name\<rparr>" "optimizations w"]
    by (auto simp: rename_optimization_def raising_def Let_def case_prod_unfold
             split: sum.splits)
  show "toggle_star L session_id uid w = Inr (r3, w')
           \<Longrightarrow> distinct (map fst (optimizations w'))"
    using assms update_one_keys[of _ _ "optimizations w"]
    by (auto simp: toggle_star_def raising_def Let_def case_prod_unfold
             split: sum.splits option.splits)
qed

section \<open>Tenant isolation\<close>

lemma delete_optimization_other:
  assumes "distinct (map fst (optimizations w))" and "(i, d) \<in> set (optimizations w)"
    and "user_id d \<noteq> b" and "ObjectId L session_id = Inr i"
  shows "delete_optimization L session_id b w = Inr (False, w)"
  using delete_one_no_match[OF other_owner_no_match[OF assms(1,2,3)]] assms(4)
  by (simp add: delete_optimization_def raising_def)

lemma rename_optimization_other:
  assumes "distinct (map fst (optimizations w))" and "(i, d) \<in> set (optimizations w)"
    and "user_id d \<noteq> b" and "ObjectId L session_id = Inr i"
  shows "rename_optimization L session_id b new_name w = Inr (False, w)"
  using update_one_no_match[OF other_owner_no_match[OF assms(1,2,3)]] assms(4)
  by (simp add: rename_optimization_def raising_def)

lemma toggle_star_other:
  assumes "distinct (map fst (optimizations w))" and "(i, d) \<in> set (optimizations w)"
    and "user_id d \<noteq> b" and "ObjectId L session_id = Inr i"
  shows "toggle_star L session_id b w = Inr (None, w)"
  using find_one_no_match[OF other_owner_no_match[OF assms(1,2,3)]] assms(4)
  by (simp add: toggle_star_def raising_def)

text \<open>
  C1. A session \<open>d\<close> stored under \<open>_id\<close> \<open>i\<close> belongs to user \<open>a\<close>, and another user
  \<open>b\<close> names it in a request. Then \<open>delete_optimization\<close> and \<open>rename_optimization\<close>
  return \<open>False\<close>, \<open>toggle_star\<close> returns \<open>None\<close>, each of the three routes answers 404
  with the message "Session not found or not yours", and the whole state, the session
  included, is the one before the call. (The rename route reaches the store only with a
  name that is not empty once stripped.)
\<close>

theorem tenant_isolation:
  assumes "distinct (map fst (optimizations w))"
    and "(i, d) \<in> set (optimizations w)"
    and "user_id d = a" and "b \<noteq> a"
    and "ObjectId L session_id = Inr i"
    and "stripped_field L (body_or_empty request_json) ''name'' = Inr new_name"
    and "new_name \<noteq> []"
  shows "delete_optimization L session_id b w = Inr (False, w)
       \<and> rename_optimization L session_id b new_name w = Inr (False, w)
       \<and> toggle_star L session_id b w = Inr (None, w)
       \<and> delete_session L b session_id w
           = Inr ((ErrorBody ''Session not found or not yours'', 404), w)
       \<and> rename_session L b session_id request_json w
           = Inr ((ErrorBody ''Session not found or not yours'', 404), w)
       \<and> star_session L b session_id w
           = Inr ((ErrorBody ''Session not found or not yours'', 404), w)"
proof -
  from assms(3,4) have other: "user_id d \<noteq> b" by simp
  note del = delete_optimization_other[OF assms(1,2) other assms(5)]
  note ren = rename_optimization_other[OF assms(1,2) other assms(5), of new_name]
  note tog = toggle_star_other[OF assms(1,2) other assms(5)]
  have "delete_session L b session_id w
          = Inr ((ErrorBody ''Session not found or not yours'', 404), w)"
    by (simp add: delete_session_def del raising_def not_found_def app_error_def)
  moreover have "rename_session L b session_id request_json w
          = Inr ((ErrorBody ''Session not found or not yours'', 404), w)"
    using assms(6,7)
    by (simp add: rename_session_def ren raising_def not_found_def app_error_def)
  moreover have "star_session L b session_id w
          = Inr ((ErrorBody ''Session not found or not yours'', 404), w)"
    by (simp add: star_session_def tog raising_def not_found_def app_error_def)
  ultimately show ?thesis using del ren tog by simp
qed

lemma sample_ids_distinct: "distinct (map fst (optimizations sample_world))"
  by (simp add: sample_world_def)

lemma sample_first_session:
  "(''64b000000000000000000001'', sample_session ''ada'' ''level1'' False 3000)
     \<in> set (optimizations sample_world)"
  by (simp add: sample_world_def)

lemma sample_ObjectId:
  "ObjectId sample_lib ''64B000000000000000000001'' = Inr ''64b000000000000000000001''"
  by (simp add: sample_lib_def is_hex_def ascii_lower_def ascii_lower_char_def)

theorem tenant_isolation_witness:
  "delete_session sample_lib ''bob'' ''64B000000000000000000001'' sample_world
     = Inr ((ErrorBody ''Session not found or not yours'', 404), sample_world)
   \<and> rename_session sample_lib ''bob'' ''64B000000000000000000001''
       (Some (JObj [(''name'', JStr '' mine '')])) sample_world
     = Inr ((ErrorBody ''Session not found or not yours'', 404), sample_world)
   \<and> star_session sample_lib ''bob'' ''64B000000000000000000001'' sample_world
     = Inr ((ErrorBody ''Session not found or not yours'', 404), sample_world)"
proof -
  have owner: "user_id (sample_session ''ada'' ''level1'' False 3000) = ''ada''"
    by (simp add: sample_session_def)
  have caller: "''bob'' \<noteq> ''ada''" by simp
  have field: "stripped_field sample_lib (body_or_empty (Some (JObj [(''name'', JStr '' mine '')]))) ''name''
                 = Inr ''mine''"
    by (simp add: stripped_field_def body_or_empty_def raising_def sample_lib_def ascii_strip_def ascii_space_def)
  have nonempty: "''mine'' \<noteq> []" by simp
  from tenant_isolation[OF sample_ids_distinct sample_first_session owner caller
         sample_ObjectId field nonempty]
  show ?thesis by simp
qed

section \<open>The star toggle\<close>

lemma toggle_star_owned:
  assumes "distinct (map fst (optimizations w))" and "(i, d) \<in> set (optimizations w)"
    and "user_id d = uid" and "ObjectId L session_id = Inr i"
  shows "toggle_star L session_id uid w
           = Inr (Some (\<not> starred d),
                  w\<lparr>optimizations := put_doc i (\<lambda>e. e\<lparr>starred := \<not> starred d\<rparr>) (optimizations w)\<rparr>)"
proof -
  have f: "find_one (\<lambda>(j, e). j = i \<and> user_id e = uid) (optimizations w) = Some (i, d)"
    using assms(1,2,3) by (intro find_one_unique) auto
  have u: "update_one (\<lambda>(j, e). j = i) (\<lambda>(j, e). (j, e\<lparr>starred := \<not> starred d\<rparr>)) (optimizations w)
             = ((1, if d\<lparr>starred := \<not> starred d\<rparr> = d then 0 else 1),
                put_doc i (\<lambda>e. e\<lparr>starred := \<not> starred d\<rparr>) (optimizations w))"
    using assms(1,2) by (intro update_one_unique) auto
  show ?thesis
    using assms(4) by (simp add: toggle_star_def raising_def f u Let_def)
qed

text \<open>
  C4. For a session \<open>d\<close> of the caller, \<open>toggle_star\<close> returns the negation of the
  stored flag and stores it; a second call returns the original flag and gives back the
  state \<open>w\<close> the first call started from, so that a third call is the first one again.
\<close>

theorem toggle_star_twice:
  assumes "distinct (map fst (optimizations w))"
    and "(i, d) \<in> set (optimizations w)"
    and "user_id d = uid"
    and "ObjectId L session_id = Inr i"
  shows "\<exists>w1. toggle_star L session_id uid w = Inr (Some (\<not> starred d), w1)
            \<and> map_of (optimizations w1) i = Some (d\<lparr>starred := \<not> starred d\<rparr>)
            \<and> toggle_star L session_id uid w1 = Inr (Some (starred d), w)
            \<and> map_of (optimizations w) i = Some d"
proof -
  let ?f = "\<lambda>e. e\<lparr>starred := \<not> starred d\<rparr>"
  let ?w1 = "w\<lparr>optimizations := put_doc i ?f (optimizations w)\<rparr>"
  have 1: "toggle_star L session_id uid w = Inr (Some (\<not> starred d), ?w1)"
    by (rule toggle_star_owned[OF assms])
  have d1: "distinct (map fst (optimizations ?w1))"
    using assms(1) by (simp add: put_doc_keys)
  have m1: "(i, ?f d) \<in> set (optimizations ?w1)"
    using put_doc_mem[OF assms(2), of "?f"] by simp
  have o1: "user_id (?f d) = uid" using assms(3) by simp
  have undo: "put_doc i (\<lambda>e. e\<lparr>starred := \<not> starred (?f d)\<rparr>) (put_doc i ?f (optimizations w))
                = optimizations w"
    using assms(1,2) by (intro put_doc_undo) auto
  have 2: "toggle_star L session_id uid ?w1 = Inr (Some (starred d), w)"
    using toggle_star_owned[OF d1 m1 o1 assms(4)] undo by simp
  have "map_of (optimizations ?w1) i = Some (?f d)"
    using d1 m1 by (intro map_of_is_SomeI) auto
  moreover have "map_of (optimizations w) i = Some d"
    using assms(1,2) by (intro map_of_is_SomeI) auto
  ultimately show ?thesis using 1 2 by blast
qed

theorem toggle_star_twice_witness:
  "\<exists>w1. toggle_star sample_lib ''64B000000000000000000001'' ''ada'' sample_world
            = Inr (Some True, w1)
        \<and> map_of (optimizations w1) ''64b000000000000000000001''
            = Some (sample_session ''ada'' ''level1'' True 3000)
        \<and> toggle_star sample_lib ''64B000000000000000000001'' ''ada'' w1
            = Inr (Some False, sample_world)"
proof -
  have owner: "user_id (sample_session ''ada'' ''level1'' False 3000) = ''ada''"
    by (simp add: sample_session_def)
  from toggle_star_twice[OF sample_ids_distinct sample_first_session owner sample_ObjectId]
  show ?thesis by (simp add: sample_session_def) blast
qed

section \<open>Two toggles at once\<close>

lemma toggle_star_steps:
  "toggle_star L session_id uid w =
     raising (toggle_read L session_id uid w) (\<lambda>r.
       case r of
         None \<Rightarrow> Inr (None, w)
       | Some new_val \<Rightarrow>
           raising (toggle_write L session_id new_val w) (\<lambda>w'. Inr (Some new_val, w')))"
  by (simp add: toggle_star_def toggle_read_def toggle_write_def raising_def Let_def
           split: sum.splits option.splits prod.splits)

text \<open>Served one after the other, the two requests are two calls of \<open>toggle_star\<close>.\<close>

lemma toggle_star_two_steps:
  assumes "toggle_star L session_id uid w = Inr (r, w')"
  shows "toggle_step L session_id uid (fst (toggle_step L session_id uid Waiting w))
           (snd (toggle_step L session_id uid Waiting w)) = (Returned r, w')"
proof (cases "toggle_read L session_id uid w")
  case (Inl e)
  with assms show ?thesis by (simp add: toggle_star_steps raising_def)
next
  case (Inr found)
  show ?thesis
  proof (cases found)
    case None
    with Inr assms show ?thesis
      by (simp add: toggle_star_steps raising_def toggle_step_def)
  next
    case (Some new_val)
    with Inr assms have "toggle_write L session_id new_val w = Inr w'" and "r = Some new_val"
      by (auto simp: toggle_star_steps raising_def split: sum.splits)
    with Inr Some show ?thesis by (simp add: toggle_step_def)
  qed
qed

lemma run_toggles_in_turn:
  assumes "toggle_star L session_id uid w = Inr (r1, w1)"
    and "toggle_star L session_id uid w1 = Inr (r2, w2)"
  shows "run_toggles L session_id uid [Request_A, Request_A, Request_B, Request_B]
           (Waiting, Waiting, w) = (Returned r1, Returned r2, w2)"
proof -
  obtain a1 v1 where 1: "toggle_step L session_id uid Waiting w = (a1, v1)"
    by fastforce
  with toggle_star_two_steps[OF assms(1)]
  have 2: "toggle_step L session_id uid a1 v1 = (Returned r1, w1)" by simp
  obtain b1 v2 where 3: "toggle_step L session_id uid Waiting w1 = (b1, v2)"
    by fastforce
  with toggle_star_two_steps[OF assms(2)]
  have 4: "toggle_step L session_id uid b1 v2 = (Returned r2, w2)" by simp
  show ?thesis by (simp add: 1 2 3 4)
qed

lemma toggle_star_there_and_back:
  assumes "distinct (map fst (optimizations w))" and "(i, d) \<in> set (optimizations w)"
    and "user_id d = uid" and "ObjectId L session_id = Inr i"
  shows "\<exists>w1. toggle_star L session_id uid w = Inr (Some (\<not> starred d), w1)
            \<and> toggle_star L session_id uid w1 = Inr (Some (starred d), w)"
proof -
  let ?f = "\<lambda>e. e\<lparr>starred := \<not> starred d\<rparr>"
  let ?w1 = "w\<lparr>optimizations := put_doc i ?f (optimizations w)\<rparr>"
  have d1: "distinct (map fst (optimizations ?w1))"
    using assms(1) by (simp add: put_doc_keys)
  have m1: "(i, ?f d) \<in> set (optimizations ?w1)"
    using put_doc_mem[OF assms(2), of "?f"] by simp
  have o1: "user_id (?f d) = uid" using assms(3) by simp
  have undo: "put_doc i (\<lambda>e. e\<lparr>starred := \<not> starred (?f d)\<rparr>) (put_doc i ?f (optimizations w))
                = optimizations w"
    using assms(1,2) by (intro put_doc_undo) auto
  have "toggle_star L session_id uid ?w1 = Inr (Some (starred d), w)"
    using toggle_star_owned[OF d1 m1 o1 assms(4)] undo by simp
  with toggle_star_owned[OF assms] show ?thesis by blast
qed

lemma toggle_read_owned:
  assumes "distinct (map fst (optimizations w))" and "(i, d) \<in> set (optimizations w)"
    and "user_id d = uid" and "ObjectId L session_id = Inr i"
  shows "toggle_read L session_id uid w = Inr (Some (\<not> starred d))"
proof -
  have "find_one (\<lambda>(j, e). j = i \<and> user_id e = uid) (optimizations w) = Some (i, d)"
    using assms(1,2,3) by (intro find_one_unique) auto
  with assms(4) show ?thesis by (simp add: toggle_read_def raising_def)
qed

lemma toggle_write_owned:
  assumes "distinct (map fst (optimizations w))" and "(i, d) \<in> set (optimizations w)"
    and "ObjectId L session_id = Inr i"
  shows "toggle_write L session_id new_val w
           = Inr (w\<lparr>optimizations := put_doc i (\<lambda>e. e\<lparr>starred := new_val\<rparr>) (optimizations w)\<rparr>)"
proof -
  have "update_one (\<lambda>(j, e). j = i) (\<lambda>(j, e). (j, e\<lparr>starred := new_val\<rparr>)) (optimizations w)
          = ((1, if d\<lparr>starred := new_val\<rparr> = d then 0 else 1),
             put_doc i (\<lambda>e. e\<lparr>starred := new_val\<rparr>) (optimizations w))"
    using assms(1,2) by (intro update_one_unique) auto
  with assms(3) show ?thesis by (simp add: toggle_write_def raising_def)
qed

lemma put_doc_twice: "put_doc i g (put_doc i f coll) = put_doc i (\<lambda>e. g (f e)) coll"
  by (induction coll) (auto simp: put_doc_def)

text \<open>
  For any session of the caller: when both requests read before either writes, both
  compute the same \<open>new_val\<close>, both return it, and the flag is flipped once.
\<close>

lemma lost_update:
  assumes "distinct (map fst (optimizations w))" and "(i, d) \<in> set (optimizations w)"
    and "user_id d = uid" and "ObjectId L session_id = Inr i"
  shows "run_toggles L session_id uid [Request_A, Request_B, Request_A, Request_B]
           (Waiting, Waiting, w)
         = (Returned (Some (\<not> starred d)), Returned (Some (\<not> starred d)),
            w\<lparr>optimizations := put_doc i (\<lambda>e. e\<lparr>starred := \<not> starred d\<rparr>) (optimizations w)\<rparr>)"
proof -
  let ?f = "\<lambda>e. e\<lparr>starred := \<not> starred d\<rparr>"
  let ?w1 = "w\<lparr>optimizations := put_doc i ?f (optimizations w)\<rparr>"
  note rd = toggle_read_owned[OF assms]
  note wr = toggle_write_owned[OF assms(1,2,4), of "\<not> starred d"]
  have d1: "distinct (map fst (optimizations ?w1))"
    using assms(1) by (simp add: put_doc_keys)
  have m1: "(i, ?f d) \<in> set (optimizations ?w1)"
    using put_doc_mem[OF assms(2), of "?f"] by simp
  have wr1: "toggle_write L session_id (\<not> starred d) ?w1 = Inr ?w1"
    using toggle_write_owned[OF d1 m1 assms(4), of "\<not> starred d"]
    by (simp add: put_doc_twice)
  show ?thesis
    by (simp add: toggle_step_def rd wr wr1)
qed

text \<open>
  C9. Two requests toggle the first sample session, which is not starred, and the
  server takes their calls in the order \<open>find_one\<close> of A, \<open>find_one\<close> of B, \<open>update_one\<close>
  of A, \<open>update_one\<close> of B. After the two reads both requests hold \<open>new_val = True\<close>:
  B has read the value A is about to overwrite, not the value A writes. Both return
  \<open>True\<close> and the flag ends \<open>True\<close>, so one of the two flips is lost; served one after
  the other the requests return \<open>True\<close> then \<open>False\<close> and leave the flag as it was.
  \<open>toggle_star\<close> is the plain read followed by a write, with nothing that orders two
  requests on one session.
\<close>

theorem concurrent_toggles_lose_a_flip:
  "run_toggles sample_lib ''64b000000000000000000001'' ''ada'' [Request_A, Request_B]
     (Waiting, Waiting, sample_world)
     = (Read_done True, Read_done True, sample_world)
   \<and> run_toggles sample_lib ''64b000000000000000000001'' ''ada''
       [Request_A, Request_B, Request_A, Request_B] (Waiting, Waiting, sample_world)
     = (Returned (Some True), Returned (Some True),
        sample_world\<lparr>optimizations :=
          put_doc ''64b000000000000000000001'' (\<lambda>e. e\<lparr>starred := True\<rparr>)
            (optimizations sample_world)\<rparr>)
   \<and> run_toggles sample_lib ''64b000000000000000000001'' ''ada''
       [Request_A, Request_A, Request_B, Request_B] (Waiting, Waiting, sample_world)
     = (Returned (Some True), Returned (Some False), sample_world)"
proof -
  let ?sid = "''64b000000000000000000001''"
  have oid: "ObjectId sample_lib ?sid = Inr ?sid"
    by (simp add: sample_lib_def is_hex_def ascii_lower_def ascii_lower_char_def)
  have owner: "user_id (sample_session ''ada'' ''level1'' False 3000) = ''ada''"
    by (simp add: sample_session_def)
  have flag: "starred (sample_session ''ada'' ''level1'' False 3000) = False"
    by (simp add: sample_session_def)
  note rd = toggle_read_owned[OF sample_ids_distinct sample_first_session owner oid]
  have reads: "run_toggles sample_lib ?sid ''ada'' [Request_A, Request_B]
                 (Waiting, Waiting, sample_world)
               = (Read_done True, Read_done True, sample_world)"
    by (simp add: toggle_step_def rd flag)
  have lost: "run_toggles sample_lib ?sid ''ada''
                [Request_A, Request_B, Request_A, Request_B] (Waiting, Waiting, sample_world)
              = (Returned (Some True), Returned (Some True),
                 sample_world\<lparr>optimizations :=
                   put_doc ?sid (\<lambda>e. e\<lparr>starred := True\<rparr>) (optimizations sample_world)\<rparr>)"
    using lost_update[OF sample_ids_distinct sample_first_session owner oid]
    by (simp add: flag)
  from toggle_star_there_and_back[OF sample_ids_distinct sample_first_session owner oid]
  obtain w1 where "toggle_star sample_lib ?sid ''ada'' sample_world = Inr (Some True, w1)"
    and "toggle_star sample_lib ?sid ''ada'' w1 = Inr (Some False, sample_world)"
    by (auto simp: flag)
  then have serial: "run_toggles sample_lib ?sid ''ada''
                [Request_A, Request_A, Request_B, Request_B] (Waiting, Waiting, sample_world)
              = (Returned (Some True), Returned (Some False), sample_world)"
    by (rule run_toggles_in_turn)
  from reads lost serial show ?thesis by simp
qed

section \<open>Renaming a session to the name it has\<close>

text \<open>
  C10. The caller owns session \<open>d\<close> and renames it to the name it already has (not
  empty once stripped). \<open>update_one\<close> matches the document and modifies nothing, so
  \<open>rename_optimization\<close> returns \<open>False\<close> and the route answers 404 "Session not found or
  not yours", with the state unchanged.
\<close>

theorem rename_same_name:
  assumes "distinct (map fst (optimizations w))"
    and "(i, d) \<in> set (optimizations w)"
    and "user_id d = uid"
    and "ObjectId L session_id = Inr i"
    and "stripped_field L (body_or_empty request_json) ''name'' = Inr new_name"
    and "new_name \<noteq> []"
    and "name d = new_name"
  shows "rename_optimization L session_id uid new_name w = Inr (False, w)
       \<and> rename_session L uid session_id request_json w
           = Inr ((ErrorBody ''Session not found or not yours'', 404), w)"
proof -
  have same: "d\<lparr>name := new_name\<rparr> = d" using assms(7) by simp
  have u: "update_one (\<lambda>(j, e). j = i \<and> user_id e = uid) (\<lambda>(j, e). (j, e\<lparr>name := new_name\<rparr>))
             (optimizations w)
           = ((1, if d\<lparr>name := new_name\<rparr> = d then 0 else 1),
              put_doc i (\<lambda>e. e\<lparr>name := new_name\<rparr>) (optimizations w))"
    using assms(1,2,3) by (intro update_one_unique) auto
  have p: "put_doc i (\<lambda>e. e\<lparr>name := new_name\<rparr>) (optimizations w) = optimizations w"
    using assms(1,2) same by (intro put_doc_same)
  have r: "rename_optimization L session_id uid new_name w = Inr (False, w)"
    using assms(4) by (simp add: rename_optimization_def raising_def u p same)
  have "rename_session L uid session_id request_json w
           = Inr ((ErrorBody ''Session not found or not yours'', 404), w)"
    using assms(5,6)
    by (simp add: rename_session_def r raising_def not_found_def app_error_def)
  with r show ?thesis by simp
qed

theorem rename_same_name_witness:
  "name (sample_session ''ada'' ''level1'' False 3000) = ''run''
   \<and> rename_optimization sample_lib ''64B000000000000000000001'' ''ada'' ''run'' sample_world
       = Inr (False, sample_world)
   \<and> rename_session sample_lib ''ada'' ''64B000000000000000000001''
       (Some (JObj [(''name'', JStr '' run '')])) sample_world
       = Inr ((ErrorBody ''Session not found or not yours'', 404), sample_world)"
proof -
  have owner: "user_id (sample_session ''ada'' ''level1'' False 3000) = ''ada''"
    by (simp add: sample_session_def)
  have field: "stripped_field sample_lib (body_or_empty (Some (JObj [(''name'', JStr '' run '')]))) ''name''
                 = Inr ''run''"
    by (simp add: stripped_field_def body_or_empty_def raising_def sample_lib_def ascii_strip_def ascii_space_def)
  have nonempty: "''run'' \<noteq> []" by simp
  have current: "name (sample_session ''ada'' ''level1'' False 3000) = ''run''"
    by (simp add: sample_session_def)
  from rename_same_name[OF sample_ids_distinct sample_first_session owner sample_ObjectId
         field nonempty current] current
  show ?thesis by simp
qed

text \<open>A rename to another name is reported as done.\<close>

lemma rename_other_name:
  assumes "distinct (map fst (optimizations w))"
    and "(i, d) \<in> set (optimizations w)"
    and "user_id d = uid"
    and "ObjectId L session_id = Inr i"
    and "name d \<noteq> new_name"
  shows "rename_optimization L session_id uid new_name w
           = Inr (True, w\<lparr>optimizations := put_doc i (\<lambda>e. e\<lparr>name := new_name\<rparr>) (optimizations w)\<rparr>)"
proof -
  have diff: "d\<lparr>name := new_name\<rparr> \<noteq> d"
  proof
    assume "d\<lparr>name := new_name\<rparr> = d"
    then have "name (d\<lparr>name := new_name\<rparr>) = name d" by simp
    with assms(5) show False by simp
  qed
  have u: "update_one (\<lambda>(j, e). j = i \<and> user_id e = uid) (\<lambda>(j, e). (j, e\<lparr>name := new_name\<rparr>))
             (optimizations w)
           = ((1, if d\<lparr>name := new_name\<rparr> = d then 0 else 1),
              put_doc i (\<lambda>e. e\<lparr>name := new_name\<rparr>) (optimizations w))"
    using assms(1,2,3) by (intro update_one_unique) auto
  show ?thesis
    using assms(4) diff by (simp add: rename_optimization_def raising_def u)
qed

section \<open>Aggregate statistics\<close>

lemma sum_cond_length: "sum_cond c xs = length (filter c xs)"
  by (induction xs) (auto simp: sum_cond_def)

lemma sum_ones_length: "sum_list (map (\<lambda>x. 1) xs) = length xs"
  by (induction xs) auto

lemma fold_max_Max: "fold max xs (x::int) = Max (set (x # xs))"
  by (simp only: Max.set_eq_fold)

text \<open>
  C2. \<open>get_user_stats\<close> counts the sessions of the user, those at level \<open>level1\<close>, those
  at level \<open>level2\<close> and those starred, and gives the latest \<open>created_at\<close> among them
  (as \<open>isoformat\<close> renders it); for a user with no session all counts are 0 and
  \<open>last_active\<close> is \<open>None\<close>.
\<close>

theorem get_user_stats_correct:
  "get_user_stats L uid w =
     \<lparr> total = length (owned uid w),
       level1_count = length (filter (\<lambda>d. level d = ''level1'') (owned uid w)),
       level2_count = length (filter (\<lambda>d. level d = ''level2'') (owned uid w)),
       starred_count = length (filter starred (owned uid w)),
       last_active = (if owned uid w = [] then None
                      else Some (isoformat L (Max (set (map created_at (owned uid w)))))) \<rparr>"
proof (cases "filter (\<lambda>(j, d). user_id d = uid) (optimizations w)")
  case Nil
  then show ?thesis
    by (simp add: get_user_stats_def aggregate_stats_def owned_def)
next
  case (Cons m ms)
  have c: "\<And>P. length (filter (\<lambda>(j, d). P d) (m # ms)) = length (filter P (map snd (m # ms)))"
    by (simp add: filter_map o_def case_prod_unfold)
  have mx: "fold max (map (\<lambda>(j, d). created_at d) ms) (created_at (snd m))
              = Max (set (map created_at (map snd (m # ms))))"
    by (simp only: fold_max_Max) (simp add: case_prod_unfold)
  show ?thesis
    unfolding get_user_stats_def aggregate_stats_def owned_def Cons
    by (simp only: list.case sum_cond_length sum_ones_length c mx stats.simps group_row.simps)
       simp
qed

theorem get_user_stats_correct_witness:
  "get_user_stats sample_lib ''ada'' sample_world
     = \<lparr> total = 4, level1_count = 2, level2_count = 1, starred_count = 1,
         last_active = Some (isoformat sample_lib 5000) \<rparr>
   \<and> get_user_stats sample_lib ''eve'' sample_world
     = \<lparr> total = 0, level1_count = 0, level2_count = 0, starred_count = 0,
         last_active = None \<rparr>"
proof -
  have ada: "owned ''ada'' sample_world
               = [sample_session ''ada'' ''level1'' False 3000,
                  sample_session ''ada'' ''level1'' False 5000,
                  sample_session ''ada'' ''level2'' False 4000,
                  sample_session ''ada'' ''none'' True 2000]"
    by (simp add: owned_def sample_world_def sample_session_def)
  have eve: "owned ''eve'' sample_world = []"
    by (simp add: owned_def sample_world_def sample_session_def)
  show ?thesis
    using get_user_stats_correct[of sample_lib "''ada''" sample_world]
          get_user_stats_correct[of sample_lib "''eve''" sample_world]
    by (simp add: ada eve sample_session_def)
qed

section \<open>Login\<close>

text \<open>
  When \<open>find_user_by_email\<close> finds no user, and when \<open>checkpw\<close> returns \<open>False\<close> on the
  stored hash, the handler answers 401 with the one message "Invalid email or
  password" and leaves the state as it was.
\<close>

lemma login_failure_undifferentiated:
  assumes "stripped_field L (body_or_empty request_json) ''email'' = Inr e"
    and "stripped_field L (body_or_empty request_json) ''password'' = Inr p"
    and "str_lower L e \<noteq> []" and "p \<noteq> []"
    and "find_user_by_email L (str_lower L e) w = None
         \<or> (\<exists>i doc. find_user_by_email L (str_lower L e) w = Some (i, doc)
                    \<and> checkpw L p (u_password doc) = Inr False)"
  shows "login L E request_json w = Inr ((ErrorBody ''Invalid email or password'', 401), w)"
  using assms
  by (auto simp: login_def raising_def Let_def app_error_def)

text \<open>
  \<open>checkpw\<close> is called outside any \<open>try\<close>: when it raises, the handler raises, and only
  for an email that is registered.
\<close>

lemma login_checkpw_raises:
  assumes "stripped_field L (body_or_empty request_json) ''email'' = Inr e"
    and "stripped_field L (body_or_empty request_json) ''password'' = Inr p"
    and "str_lower L e \<noteq> []" and "p \<noteq> []"
    and "find_user_by_email L (str_lower L e) w = Some (i, doc)"
    and "checkpw L p (u_password doc) = Inl ex"
  shows "login L E request_json w = Inl ex"
  using assms
  by (simp add: login_def raising_def Let_def)

lemmas sample_strings =
  sample_lib_def ascii_strip_def ascii_space_def ascii_lower_def ascii_lower_char_def

lemma login_wrong_password:
  "login sample_lib sample_env
     (Some (JObj [(''email'', JStr '' ADA@x.com''), (''password'', JStr ''secret2'')])) sample_world
   = Inr ((ErrorBody ''Invalid email or password'', 401), sample_world)"
  by (simp add: login_def raising_def Let_def stripped_field_def body_or_empty_def
        sample_strings find_user_by_email_def find_one_def
        sample_world_def ada_doc_def app_error_def)

lemma login_accepts:
  "login sample_lib sample_env
     (Some (JObj [(''email'', JStr '' ADA@x.com''), (''password'', JStr ''secret1'')])) sample_world
   = Inr ((LoginBody ''aaaaaaaaaaaaaaaaaaaaaaaa.ada@x.com'' ''aaaaaaaaaaaaaaaaaaaaaaaa''
            ''Ada'' ''ada@x.com'', 200), sample_world)"
  by (simp add: login_def raising_def Let_def stripped_field_def body_or_empty_def
        sample_strings find_user_by_email_def find_one_def
        sample_world_def ada_doc_def make_token_def)

text \<open>
  C5. Under a \<open>checkpw\<close> that refuses a password of more than 72 bytes, a login with
  such a password is answered 401 "Invalid email or password" when the email is
  unknown, and ends in the uncaught \<open>ValueError\<close> (HTTP 500) when the email is
  registered: the two failures are told apart, and the caller learns that the email
  exists.
\<close>

theorem login_tells_known_email:
  "login bcrypt5_lib sample_env
     (Some (JObj [(''email'', JStr ''eve@x.com''), (''password'', JStr too_long)])) sample_world
     = Inr ((ErrorBody ''Invalid email or password'', 401), sample_world)
   \<and> login bcrypt5_lib sample_env
       (Some (JObj [(''email'', JStr ''ada@x.com''), (''password'', JStr too_long)])) sample_world
     = Inl (ValueError ''password cannot be longer than 72 bytes'')"
  by (simp add: login_def raising_def Let_def stripped_field_def body_or_empty_def
        bcrypt5_lib_def sample_strings too_long_def find_user_by_email_def find_one_def
        sample_world_def ada_doc_def app_error_def)

section \<open>Registration and the unique email\<close>











section \<open>Analyse\<close>

text \<open>
  C7. The request passes validation, the pipeline returns a result whose error check
  passed, and \<open>save_optimization\<close> raises. The handler still answers 200 with the
  pipeline result and \<open>session_id\<close> \<open>None\<close>; the exception is only printed, and no
  session is stored.
\<close>

theorem analyse_save_failure:
  assumes "py_get body ''code'' (JStr []) = Inr (JStr code)" and "str_strip L code \<noteq> []"
    and "py_get body ''optimization_level'' (JStr ''none'') = Inr submitted"
    and "alias_get submitted = Inr aliased"
    and "valid_level aliased = Inr (Some optimization_level)"
    and "run_pipeline L code optimization_level = Inr result"
    and "passed_error_check result = Some True"
    and "save_optimization L E uid
           (or_default [] (r_original_code result)) (or_default [] (r_optimized_code result))
           optimization_level (level_changes optimization_level result)
           (or_default [] (r_original_analysis result))
           (or_default [] (r_optimized_analysis result))
           (r_error result) w = Inl e"
  shows "analyse L E uid (Some body) w = Inr ((AnalyseBody result None, 200), print_exc e w)
       \<and> optimizations (print_exc e w) = optimizations w
       \<and> printed (print_exc e w) = printed w @ [e]"
  using assms
  by (simp add: analyse_def raising_def non_empty_code_def auto_save_def print_exc_def)

lemma save_optimization_backend_down:
  "backend_error E = Some e \<Longrightarrow> save_optimization L E uid a b c d f g h w = Inl e"
  by (simp add: save_optimization_def insert_one_def raising_def Let_def)

lemma sample_level2:
  "py_get (the (analyse_request ''LEVEL_2'')) ''code'' (JStr []) = Inr (JStr ''x = 1 + 1'')"
  "str_strip sample_lib ''x = 1 + 1'' \<noteq> []"
  "py_get (the (analyse_request ''LEVEL_2'')) ''optimization_level'' (JStr ''none'')
     = Inr (JStr ''LEVEL_2'')"
  "alias_get (JStr ''LEVEL_2'') = Inr (JStr ''level2'')"
  "valid_level (JStr ''level2'') = Inr (Some ''level2'')"
  by (simp_all add: analyse_request_def sample_strings alias_get_def valid_level_def
        LEVEL_ALIASES_def VALID_LEVELS_def)

theorem analyse_save_failure_witness:
  "analyse sample_lib failing_env ''ada'' (analyse_request ''LEVEL_2'') sample_world
     = Inr ((AnalyseBody (projr (sample_pipeline ''x = 1 + 1'' ''level2'')) None, 200),
            sample_world\<lparr>printed := [PyMongoError ''connection refused'']\<rparr>)"
proof -
  let ?r = "projr (sample_pipeline ''x = 1 + 1'' ''level2'')"
  have run: "run_pipeline sample_lib ''x = 1 + 1'' ''level2'' = Inr ?r"
    by (simp add: sample_lib_def sample_pipeline_def)
  have passed: "passed_error_check ?r = Some True"
    by (simp add: sample_pipeline_def)
  have down: "backend_error failing_env = Some (PyMongoError ''connection refused'')"
    by (simp add: failing_env_def)
  have req: "analyse_request ''LEVEL_2'' = Some (the (analyse_request ''LEVEL_2''))"
    by (simp add: analyse_request_def)
  have log: "print_exc (PyMongoError ''connection refused'') sample_world
               = sample_world\<lparr>printed := [PyMongoError ''connection refused'']\<rparr>"
    by (simp add: print_exc_def sample_world_def)
  from analyse_save_failure[OF sample_level2 run passed
         save_optimization_backend_down[OF down], of "''ada''" sample_world]
  show ?thesis by (simp add: req[symmetric] log)
qed

text \<open>
  The aliases. \<open>LEVEL_1\<close>, \<open>level_1\<close>, \<open>LEVEL_2\<close> and \<open>level_2\<close> give the handler's answer
  and state for the level they stand for; what is saved carries that level and its change
  list; another string, a number, a boolean or null is answered 400.
\<close>

lemma alias_cases:
  "map_of LEVEL_ALIASES a = Some c \<Longrightarrow>
     (a = ''LEVEL_1'' \<or> a = ''level_1'') \<and> c = ''level1''
   \<or> (a = ''LEVEL_2'' \<or> a = ''level_2'') \<and> c = ''level2''"
  by (simp add: LEVEL_ALIASES_def split: if_splits)

lemma alias_get_alias:
  "map_of LEVEL_ALIASES a = Some c \<Longrightarrow> alias_get (JStr a) = Inr (JStr c)"
  by (simp add: alias_get_def)

lemma alias_get_canonical:
  "map_of LEVEL_ALIASES a = Some c \<Longrightarrow> alias_get (JStr c) = Inr (JStr c)"
  by (drule alias_cases) (auto simp: alias_get_def LEVEL_ALIASES_def)

lemma analyse_alias:
  assumes "map_of LEVEL_ALIASES a = Some c"
  shows "analyse L E uid (Some (JObj ((''optimization_level'', JStr a) # kvs))) w
       = analyse L E uid (Some (JObj ((''optimization_level'', JStr c) # kvs))) w"
  by (simp add: analyse_def raising_def alias_get_alias[OF assms] alias_get_canonical[OF assms]
        split: option.split)

lemma save_optimization_appends:
  "save_optimization L E uid a b lvl chgs f g h w = Inr (saved, w') \<Longrightarrow>
     \<exists>doc. optimizations w' = optimizations w @ [(oj_id saved, doc)]
          \<and> level doc = lvl \<and> changes doc = chgs \<and> user_id doc = uid \<and> \<not> starred doc"
  by (auto simp: save_optimization_def insert_one_def raising_def Let_def
        serialize_optimization_def split: option.splits if_splits)

lemma analyse_alias_saved:
  assumes "analyse L E uid (Some body) w = Inr ((AnalyseBody result (Some sid), 200), w')"
    and "py_get body ''optimization_level'' (JStr ''none'') = Inr (JStr a)"
    and "map_of LEVEL_ALIASES a = Some c"
  shows "\<exists>doc. optimizations w' = optimizations w @ [(sid, doc)]
             \<and> level doc = c \<and> changes doc = level_changes c result"
proof -
  have v: "valid_level (JStr c) = Inr (Some c)"
    using alias_cases[OF assms(3)] by (auto simp: valid_level_def VALID_LEVELS_def)
  from assms(1,2) alias_get_alias[OF assms(3)] v
  have "\<exists>saved. save_optimization L E uid
           (or_default [] (r_original_code result)) (or_default [] (r_optimized_code result))
           c (level_changes c result)
           (or_default [] (r_original_analysis result))
           (or_default [] (r_optimized_analysis result))
           (r_error result) w = Inr (saved, w') \<and> oj_id saved = sid"
    by (auto simp: analyse_def raising_def auto_save_def app_error_def print_exc_def
             split: sum.splits option.splits if_splits prod.splits)
  then show ?thesis by (auto dest: save_optimization_appends)
qed

lemma analyse_unrecognized:
  assumes "py_get body ''code'' (JStr []) = Inr (JStr code)" and "str_strip L code \<noteq> []"
    and "py_get body ''optimization_level'' (JStr ''none'') = Inr v"
    and "hashable v"
    and "\<forall>s. v = JStr s \<longrightarrow> s \<notin> set VALID_LEVELS \<and> map_of LEVEL_ALIASES s = None"
  shows "analyse L E uid (Some body) w
       = Inr ((ErrorBody '''optimization_level' must be one of: ['level1', 'level2', 'none']'',
               400), w)"
  using assms
  by (cases v)
     (auto simp: analyse_def raising_def non_empty_code_def alias_get_def valid_level_def
        app_error_def)

lemma analyse_unhashable:
  assumes "py_get body ''code'' (JStr []) = Inr (JStr code)" and "str_strip L code \<noteq> []"
    and "py_get body ''optimization_level'' (JStr ''none'') = Inr v"
    and "\<not> hashable v"
  shows "analyse L E uid (Some body) w = Inl (TypeError ''unhashable type'')"
  using assms
  by (simp add: analyse_def raising_def non_empty_code_def alias_get_def)

text \<open>
  C8. A level that is a JSON array (or object) is not answered 400: hashing it in
  \<open>_LEVEL_ALIASES.get\<close> raises \<open>TypeError\<close>, which nothing in the handler catches.
\<close>

theorem analyse_unhashable_level:
  "analyse sample_lib sample_env ''ada''
     (Some (JObj [(''code'', JStr ''x = 1 + 1''), (''optimization_level'', JArr [])]))
     sample_world
   = Inl (TypeError ''unhashable type'')"
  by (simp add: analyse_def raising_def non_empty_code_def sample_strings alias_get_def)

end
